theory Spec2Isabelle
  imports Main
begin

section \<open>RozetkaPay client: configuration\<close>

text \<open>
  The client library is a thin layer over the Go standard library. The functions of the
  repository (\<open>NewConfig\<close>, \<open>Send\<close>, \<open>NewRequest\<close>, \<open>ErrorCode\<close>,
  \<open>GetPaymentCallbackFromBytes\<close>) are embedded as they are written; the standard-library
  functions they call are embedded beside them, each named after the Go function it
  stands for. A Go \<open>string\<close> or \<open>[]byte\<close> is a \<open>char list\<close>: a \<open>char\<close> is one byte.
\<close>

subsection \<open>encoding/base64: StdEncoding.EncodeToString\<close>

text \<open>
  The standard alphabet of RFC 4648 with \<open>=\<close> padding: three input bytes give four
  output characters of six bits each; a final group of one or two bytes is padded.
\<close>

definition encodeStd :: string where
  "encodeStd = ''ABCDEFGHIJKLMNOPQRSTUVWXYZabcdefghijklmnopqrstuvwxyz0123456789+/''"

definition b64 :: "nat \<Rightarrow> char" where
  "b64 n = encodeStd ! (n mod 64)"

fun EncodeToString :: "string \<Rightarrow> string" where
  "EncodeToString [] = []"
| "EncodeToString [a] =
     (let x = (of_char a :: nat)
      in [b64 (x div 4), b64 ((x mod 4) * 16), CHR ''='', CHR ''=''])"
| "EncodeToString [a, b] =
     (let x = (of_char a :: nat); y = (of_char b :: nat)
      in [b64 (x div 4), b64 ((x mod 4) * 16 + y div 16), b64 ((y mod 16) * 4), CHR ''=''])"
| "EncodeToString (a # b # c # rest) =
     (let x = (of_char a :: nat); y = (of_char b :: nat); z = (of_char c :: nat)
      in [b64 (x div 4), b64 ((x mod 4) * 16 + y div 16),
          b64 ((y mod 16) * 4 + z div 64), b64 (z mod 64)] @ EncodeToString rest)"

subsection \<open>config.go\<close>

definition API_URL :: string where
  "API_URL = ''https://api.rozetkapay.com/api/''"

definition DevLogin :: string where
  "DevLogin = ''a6a29002-dc68-4918-bc5d-51a6094b14a8''"

definition DevPassword :: string where
  "DevPassword = ''XChz3J8qrr''"

record Config =
  API :: string
  BasicAuth :: string
  ResultURL :: string
  CallbackURL :: string
  Debug :: bool

text \<open>A Go composite literal leaves the fields it does not name at their zero value.\<close>

definition NewConfig :: "string \<Rightarrow> string \<Rightarrow> Config" where
  "NewConfig login password =
     \<lparr>API = API_URL,
      BasicAuth = EncodeToString (login @ '':'' @ password),
      ResultURL = '''',
      CallbackURL = '''',
      Debug = False\<rparr>"

definition NewDevelopmentConfig :: Config where
  "NewDevelopmentConfig =
     \<lparr>API = API_URL,
      BasicAuth = EncodeToString (DevLogin @ '':'' @ DevPassword),
      ResultURL = '''',
      CallbackURL = '''',
      Debug = True\<rparr>"

definition SetCallbackURL :: "Config \<Rightarrow> string \<Rightarrow> Config" where
  "SetCallbackURL c callbackURL = c\<lparr>CallbackURL := callbackURL\<rparr>"

definition SetResultURL :: "Config \<Rightarrow> string \<Rightarrow> Config" where
  "SetResultURL c resultURL = c\<lparr>ResultURL := resultURL\<rparr>"

definition SetDebugMode :: "Config \<Rightarrow> bool \<Rightarrow> Config" where
  "SetDebugMode c debug = c\<lparr>Debug := debug\<rparr>"

section \<open>Theorems\<close>

lemma EncodeToString_example: "EncodeToString ''a:b'' = ''YTpi''"
  by (simp add: b64_def encodeStd_def)

lemma EncodeToString_dev:
  "EncodeToString (DevLogin @ '':'' @ DevPassword) =
     ''YTZhMjkwMDItZGM2OC00OTE4LWJjNWQtNTFhNjA5NGIxNGE4OlhDaHozSjhxcnI=''"
  by (simp add: DevLogin_def DevPassword_def b64_def encodeStd_def)

text \<open>
  C6. For every login and password, \<open>NewConfig\<close> returns a configuration whose
  \<open>BasicAuth\<close> is the base64 encoding of \<open>login + ":" + password\<close> and whose \<open>API\<close> is the
  fixed production URL; \<open>NewDevelopmentConfig\<close> does the same with the fixed sandbox
  credential pair and also sets \<open>Debug\<close> to true.
\<close>

theorem NewConfig_basic_auth:
  "BasicAuth (NewConfig login password) = EncodeToString (login @ '':'' @ password)
   \<and> API (NewConfig login password) = ''https://api.rozetkapay.com/api/''
   \<and> BasicAuth NewDevelopmentConfig =
       EncodeToString (''a6a29002-dc68-4918-bc5d-51a6094b14a8'' @ '':'' @ ''XChz3J8qrr'')
   \<and> BasicAuth NewDevelopmentConfig = BasicAuth (NewConfig DevLogin DevPassword)
   \<and> API NewDevelopmentConfig = ''https://api.rozetkapay.com/api/''
   \<and> Debug NewDevelopmentConfig"
  by (simp add: NewConfig_def NewDevelopmentConfig_def API_URL_def DevLogin_def DevPassword_def)

end
